theory Spec2Isabelle
  imports Main "HOL-Library.Sublist" "HOL-Library.Multiset"
begin

text \<open>
  A song library in Go: an HTTP transport, a service that holds the business rules, a
  PostgreSQL repository and a client of an external API. Each Go function is a HOL
  function of the same name. A function that talks to the database takes the state of the
  store and returns its result with the new state; a Go result \<^verbatim>\<open>(v, err)\<close> is a sum
  with the error on the left, and a lone \<^verbatim>\<open>error\<close> result is an option.
\<close>

section \<open>Song library: the data model\<close>

text \<open>
  The Go \<^verbatim>\<open>error\<close> values the program builds: \<^verbatim>\<open>errors.New(m)\<close> (and
  \<^verbatim>\<open>fmt.Errorf(m)\<close> without a verb), and an error wrapped with a message, as
  \<^verbatim>\<open>fmt.Errorf("m: %w", err)\<close> and \<^verbatim>\<open>errors.Wrap(err, "m")\<close> both do. Errors of the
  database driver and of the HTTP client are values of the same type.
\<close>

datatype error = ErrNew string | ErrWrap string error

fun Error :: "error \<Rightarrow> string" where
  "Error (ErrNew m) = m"
| "Error (ErrWrap m e) = m @ '': '' @ Error e"

text \<open>\<^verbatim>\<open>errors.Is(err, target)\<close>: the error itself or an error it wraps.\<close>

fun Is :: "error \<Rightarrow> error \<Rightarrow> bool" where
  "Is (ErrNew m) target = (ErrNew m = target)"
| "Is (ErrWrap m e) target = (ErrWrap m e = target \<or> Is e target)"

definition ErrNoRows :: error where
  "ErrNoRows = ErrNew ''sql: no rows in result set''"

text \<open>
  \<^verbatim>\<open>models.Song\<close>. The identifier is an \<^verbatim>\<open>int64\<close> on which the program does no
  arithmetic, so it is an \<open>int\<close>. \<^verbatim>\<open>ReleaseDate\<close> is a string: the service, the
  endpoints and the client all assign and compare it as one (the struct declaration
  says \<^verbatim>\<open>time.Time\<close>). The two timestamps are points of an abstract clock.
\<close>

record Song =
  ID :: int
  GroupName :: string
  Title :: string
  ReleaseDate :: string
  Link :: string
  Text :: string
  CreatedAt :: nat
  UpdatedAt :: nat

record SongFilter =
  FilterGroupName :: string
  FilterTitle :: string

text \<open>\<^verbatim>\<open>service.SongInfo\<close>, the answer of the external API.\<close>

record SongInfo =
  InfoReleaseDate :: string
  InfoText :: string
  InfoLink :: string

section \<open>Formatting and parsing integers\<close>

text \<open>The verb \<^verbatim>\<open>%d\<close> of \<^verbatim>\<open>fmt\<close>: decimal digits, with a minus sign.\<close>

definition digitChar :: "nat \<Rightarrow> char" where
  "digitChar n = char_of (48 + n)"

function digitsOf :: "nat \<Rightarrow> string" where
  "digitsOf n = (if n < 10 then [digitChar n] else digitsOf (n div 10) @ [digitChar (n mod 10)])"
  by pat_completeness auto
termination
  by (relation "measure id") auto

declare digitsOf.simps [simp del]

definition fmtD :: "int \<Rightarrow> string" where
  "fmtD i = (if i < 0 then CHR ''-'' # digitsOf (nat (- i)) else digitsOf (nat i))"

text \<open>
  \<^verbatim>\<open>strconv.ParseInt(s, 10, 64)\<close> and \<^verbatim>\<open>strconv.Atoi(s)\<close> (the same function on a
  64-bit platform; \<^verbatim>\<open>Atoi\<close> only has a fast path for short inputs). The loop of
  \<^verbatim>\<open>ParseUint\<close> reads digit after digit and stops at the first byte that is not a
  digit (a syntax error, value 0) or at the first digit that takes the value out of
  64 bits (a range error, value \<open>2^64 - 1\<close>). \<^verbatim>\<open>ParseInt\<close> then checks the sign
  and the 63-bit bound: on a range error it returns the largest magnitude of that sign.
\<close>

datatype numError = ErrSyntax | ErrRange

definition isDigit :: "char \<Rightarrow> bool" where
  "isDigit c = (48 \<le> (of_char c :: nat) \<and> (of_char c :: nat) \<le> 57)"

fun parseUintLoop :: "int \<Rightarrow> string \<Rightarrow> int \<times> numError option" where
  "parseUintLoop n [] = (n, None)"
| "parseUintLoop n (c # cs) =
     (if \<not> isDigit c then (0, Some ErrSyntax)
      else if n \<ge> (2 ^ 64 - 1) div 10 + 1 then (2 ^ 64 - 1, Some ErrRange)
      else if n * 10 + (of_char c - 48) > 2 ^ 64 - 1 then (2 ^ 64 - 1, Some ErrRange)
      else parseUintLoop (n * 10 + (of_char c - 48)) cs)"

definition ParseUint :: "string \<Rightarrow> int \<times> numError option" where
  "ParseUint s = (if s = [] then (0, Some ErrSyntax) else parseUintLoop 0 s)"

definition ParseInt :: "string \<Rightarrow> int \<times> numError option" where
  "ParseInt s =
     (if s = [] then (0, Some ErrSyntax)
      else
        let neg = (hd s = CHR ''-'');
            s1 = (if hd s = CHR ''+'' \<or> hd s = CHR ''-'' then tl s else s)
        in case ParseUint s1 of
             (un, Some ErrSyntax) \<Rightarrow> (0, Some ErrSyntax)
           | (un, r) \<Rightarrow>
               if \<not> neg \<and> un \<ge> 2 ^ 63 then (2 ^ 63 - 1, Some ErrRange)
               else if neg \<and> un > 2 ^ 63 then (- (2 ^ 63), Some ErrRange)
               else (if neg then - un else un, None))"

definition Atoi :: "string \<Rightarrow> int \<times> numError option" where
  "Atoi s = ParseInt s"

section \<open>The store: the songs table behind the repository\<close>

text \<open>
  The repository runs one SQL statement per method on a PostgreSQL table. The table is
  the list of its rows; \<open>seq\<close> is the last value of the sequence behind the
  \<^verbatim>\<open>SERIAL\<close> primary key; \<open>now\<close> is the clock that \<^verbatim>\<open>NOW()\<close> reads, one tick per
  statement. Each statement can fail (connection, context cancelled, constraint):
  \<open>faults\<close> is the list of what the coming statements do, \<open>None\<close> for a statement
  that runs, and an exhausted list means no more failures. A failure of the listing
  query names the place where the driver reports it. \<open>trace\<close> records the repository
  methods called, with their arguments, in order. An insert fails when the id it draws
  from the sequence is taken, as the primary key demands.

  The migration declares \<^verbatim>\<open>release_date\<close> as a \<^verbatim>\<open>DATE\<close>, and the program binds a
  string to it and scans it into one. The server reads a bound text as a calendar date or
  refuses it; which texts it reads depends on its \<^verbatim>\<open>DateStyle\<close>, so this reading is
  the field \<open>dateInput\<close> of the store. The driver hands a date back as a time at
  midnight UTC, and the scan into a string writes it in the RFC 3339 form:
  \<open>rfc3339\<close>. A row holds its release date the way a read hands it back.
\<close>

datatype date = Date int int int

definition pad :: "nat \<Rightarrow> string \<Rightarrow> string" where
  "pad n s = replicate (n - length s) (CHR ''0'') @ s"

fun rfc3339 :: "date \<Rightarrow> string" where
  "rfc3339 (Date y m dd) =
     pad 4 (fmtD y) @ ''-'' @ pad 2 (fmtD m) @ ''-'' @ pad 2 (fmtD dd) @ ''T00:00:00Z''"

declare rfc3339.simps [simp del]

datatype stage = AtQuery | AtScan | AtRows

datatype call =
    CallCreate Song
  | CallGetByID int
  | CallGetAll SongFilter int int
  | CallUpdate Song
  | CallDelete int

record db =
  rows :: "Song list"
  seq :: int
  now :: nat
  faults :: "(stage \<times> error) option list"
  trace :: "call list"
  dateInput :: "string \<Rightarrow> date option"

definition nextFault :: "db \<Rightarrow> (stage \<times> error) option" where
  "nextFault d = (case faults d of [] \<Rightarrow> None | f # fs \<Rightarrow> f)"

text \<open>One statement is sent: the call is recorded, the clock ticks, one fault is consumed.\<close>

definition exec :: "call \<Rightarrow> db \<Rightarrow> db" where
  "exec c d = d\<lparr>now := Suc (now d), faults := tl (faults d), trace := trace d @ [c]\<rparr>"

subsection \<open>Create\<close>

definition Create :: "Song \<Rightarrow> db \<Rightarrow> (error + int) \<times> db" where
  "Create song d =
     (let d1 = exec (CallCreate song) d in
      case nextFault d of
        Some (st, e) \<Rightarrow> (Inl (ErrWrap ''failed to insert new song'' e), d1)
      | None \<Rightarrow>
          (case dateInput d (ReleaseDate song) of
             None \<Rightarrow>
               (Inl (ErrWrap ''failed to insert new song''
                  (ErrNew ''pq: invalid input syntax for type date'')), d1)
           | Some releaseDate \<Rightarrow>
               let newID = seq d1 + 1; d2 = d1\<lparr>seq := newID\<rparr> in
               if newID \<in> ID ` set (rows d2)
               then (Inl (ErrWrap ''failed to insert new song''
                       (ErrNew ''pq: duplicate key value violates unique constraint songs_pkey'')), d2)
               else (Inr newID,
                     d2\<lparr>rows := rows d2 @
                       [\<lparr>ID = newID, GroupName = GroupName song, Title = Title song,
                         ReleaseDate = rfc3339 releaseDate, Link = Link song, Text = Text song,
                         CreatedAt = now d2, UpdatedAt = now d2\<rparr>]\<rparr>)))"

subsection \<open>GetByID\<close>

definition GetByID :: "int \<Rightarrow> db \<Rightarrow> (error + Song option) \<times> db" where
  "GetByID i d =
     (let d1 = exec (CallGetByID i) d in
      case nextFault d of
        Some (st, e) \<Rightarrow>
          if Is e ErrNoRows then (Inr None, d1)
          else (Inl (ErrWrap ''failed to get song by ID'' e), d1)
      | None \<Rightarrow> (Inr (find (\<lambda>s. ID s = i) (rows d1)), d1))"

subsection \<open>Update and Delete\<close>

text \<open>
  The update statement sets the columns to the record the service merged, and the row is
  taken to keep the release date text it is given. That is the text of an earlier read
  when the incoming release date is empty, which the date column reads and hands back
  unchanged; the way of a new text through the date column is modelled in \<open>Create\<close>
  only.
\<close>

definition Update :: "Song \<Rightarrow> db \<Rightarrow> error option \<times> db" where
  "Update song d =
     (let d1 = exec (CallUpdate song) d in
      case nextFault d of
        Some (st, e) \<Rightarrow> (Some (ErrWrap ''failed to update song'' e), d1)
      | None \<Rightarrow>
          (None,
           d1\<lparr>rows := map (\<lambda>r. if ID r = ID song
                                then r\<lparr>GroupName := GroupName song, Title := Title song,
                                       ReleaseDate := ReleaseDate song, Link := Link song,
                                       Text := Text song, UpdatedAt := now d1\<rparr>
                                else r) (rows d1)\<rparr>))"

definition Delete :: "int \<Rightarrow> db \<Rightarrow> error option \<times> db" where
  "Delete i d =
     (let d1 = exec (CallDelete i) d in
      case nextFault d of
        Some (st, e) \<Rightarrow> (Some (ErrWrap ''failed to delete song'' e), d1)
      | None \<Rightarrow> (None, d1\<lparr>rows := filter (\<lambda>r. ID r \<noteq> i) (rows d1)\<rparr>))"

subsection \<open>GetAll\<close>

text \<open>
  \<^verbatim>\<open>ILIKE\<close>. In a pattern \<^verbatim>\<open>%\<close> stands for any run of characters, \<^verbatim>\<open>_\<close> for any
  one character, and a backslash takes the next character literally; everything else
  stands for itself. \<^verbatim>\<open>ILIKE\<close> compares without regard to case: pattern and value
  are both put in lower case. Here the letters are the ASCII letters and \<^verbatim>\<open>_\<close> stands
  for one byte, as in PostgreSQL on ASCII text. A pattern that ends in a lone
  backslash is an error in PostgreSQL; no pattern built by \<^verbatim>\<open>GetAll\<close> does, since each
  ends in the \<^verbatim>\<open>%\<close> it appends, and \<open>like\<close> answers \<open>False\<close> there.
\<close>

definition toLower :: "char \<Rightarrow> char" where
  "toLower c = (if 65 \<le> (of_char c :: nat) \<and> (of_char c :: nat) \<le> 90
                then char_of ((of_char c :: nat) + 32) else c)"

fun like :: "string \<Rightarrow> string \<Rightarrow> bool" where
  "like [] s = (s = [])"
| "like (p # ps) [] = (p = CHR ''%'' \<and> like ps [])"
| "like (p # ps) (c # t) =
     (if p = CHR ''%'' then like ps (c # t) \<or> like (p # ps) t
      else if p = CHR ''_'' then like ps t
      else if p = CHR 0x5C then (case ps of [] \<Rightarrow> False | q # qs \<Rightarrow> q = c \<and> like qs t)
      else p = c \<and> like ps t)"

definition ilike :: "string \<Rightarrow> string \<Rightarrow> bool" where
  "ilike pat s = like (map toLower pat) (map toLower s)"

text \<open>
  The query text: one clause per filter field that is not empty, group name first, each
  with its bound argument \<^verbatim>\<open>"%" + value + "%"\<close>; the clauses are joined by \<^verbatim>\<open>AND\<close>.
\<close>

datatype column = ColGroupName | ColTitle

fun colValue :: "column \<Rightarrow> Song \<Rightarrow> string" where
  "colValue ColGroupName r = GroupName r"
| "colValue ColTitle r = Title r"

definition whereClauses :: "SongFilter \<Rightarrow> (column \<times> string) list" where
  "whereClauses f =
     (if FilterGroupName f \<noteq> [] then [(ColGroupName, ''%'' @ FilterGroupName f @ ''%'')] else []) @
     (if FilterTitle f \<noteq> [] then [(ColTitle, ''%'' @ FilterTitle f @ ''%'')] else [])"

definition rowMatches :: "(column \<times> string) list \<Rightarrow> Song \<Rightarrow> bool" where
  "rowMatches cls r = list_all (\<lambda>(col, pat). ilike pat (colValue col r)) cls"

text \<open>\<^verbatim>\<open>ORDER BY id DESC\<close>.\<close>

definition orderByIdDesc :: "Song list \<Rightarrow> Song list" where
  "orderByIdDesc xs = rev (sort_key ID xs)"

text \<open>
  What the statement selects from a table. PostgreSQL refuses a negative \<^verbatim>\<open>OFFSET\<close>
  and a negative \<^verbatim>\<open>LIMIT\<close> (it checks the offset first), and the code formats both
  numbers into the query as they come.
\<close>

definition selectSongs :: "SongFilter \<Rightarrow> int \<Rightarrow> int \<Rightarrow> Song list \<Rightarrow> error + Song list" where
  "selectSongs f limit offset tbl =
     (if offset < 0 then Inl (ErrNew ''pq: OFFSET must not be negative'')
      else if limit < 0 then Inl (ErrNew ''pq: LIMIT must not be negative'')
      else Inr (take (nat limit) (drop (nat offset)
                  (orderByIdDesc (filter (rowMatches (whereClauses f)) tbl)))))"

definition GetAll :: "SongFilter \<Rightarrow> int \<Rightarrow> int \<Rightarrow> db \<Rightarrow> (error + Song list) \<times> db" where
  "GetAll f limit offset d =
     (let d1 = exec (CallGetAll f limit offset) d in
      case nextFault d of
        Some (AtQuery, e) \<Rightarrow> (Inl (ErrWrap ''failed to get songs'' e), d1)
      | Some (AtScan, e) \<Rightarrow>
          (case selectSongs f limit offset (rows d1) of
             Inl e' \<Rightarrow> (Inl (ErrWrap ''failed to get songs'' e'), d1)
           | Inr [] \<Rightarrow> (Inr [], d1)
           | Inr (s # ss) \<Rightarrow> (Inl (ErrWrap ''failed to scan row into Song'' e), d1))
      | Some (AtRows, e) \<Rightarrow>
          (case selectSongs f limit offset (rows d1) of
             Inl e' \<Rightarrow> (Inl (ErrWrap ''failed to get songs'' e'), d1)
           | Inr ss \<Rightarrow> (Inl (ErrWrap ''error iterating over song rows'' e), d1))
      | None \<Rightarrow>
          (case selectSongs f limit offset (rows d1) of
             Inl e' \<Rightarrow> (Inl (ErrWrap ''failed to get songs'' e'), d1)
           | Inr ss \<Rightarrow> (Inr ss, d1)))"

section \<open>The service\<close>

text \<open>
  \<^verbatim>\<open>SongService\<close> holds a repository and an external client. The repository is the
  one above; the client is the function \<open>fetch\<close>, which answers with the song's
  information or with an error. The log lines are left out.
\<close>

type_synonym client = "string \<Rightarrow> string \<Rightarrow> error + SongInfo"

definition CreateSong :: "client \<Rightarrow> string \<Rightarrow> string \<Rightarrow> db \<Rightarrow> (error + int) \<times> db" where
  "CreateSong fetch groupName songTitle d =
     (case fetch groupName songTitle of
        Inl err \<Rightarrow> (Inl (ErrWrap ''failed to fetch external data'' err), d)
      | Inr songInfo \<Rightarrow>
          (let song = \<lparr>ID = 0, GroupName = groupName, Title = songTitle,
                       ReleaseDate = InfoReleaseDate songInfo, Link = InfoLink songInfo,
                       Text = InfoText songInfo, CreatedAt = 0, UpdatedAt = 0\<rparr>
           in (case Create song d of
                 (Inl err, d1) \<Rightarrow> (Inl (ErrWrap ''failed to create new song'' err), d1)
               | (Inr newID, d1) \<Rightarrow> (Inr newID, d1))))"

definition GetSong :: "int \<Rightarrow> db \<Rightarrow> (error + Song) \<times> db" where
  "GetSong songID d =
     (case GetByID songID d of
        (Inl err, d1) \<Rightarrow>
          (Inl (ErrWrap (''failed to retrieve song with ID='' @ fmtD songID) err), d1)
      | (Inr None, d1) \<Rightarrow> (Inl (ErrNew ''song not found''), d1)
      | (Inr (Some s), d1) \<Rightarrow> (Inr s, d1))"

definition ListSongs :: "SongFilter \<Rightarrow> int \<Rightarrow> int \<Rightarrow> db \<Rightarrow> (error + Song list) \<times> db" where
  "ListSongs f limit offset d =
     (case GetAll f limit offset d of
        (Inl err, d1) \<Rightarrow> (Inl (ErrWrap ''failed to list songs'' err), d1)
      | (Inr songs, d1) \<Rightarrow> (Inr songs, d1))"

text \<open>
  Go's \<^verbatim>\<open>int\<close> is 64 bits wide and its arithmetic wraps around: \<open>wrap64\<close> is the
  two's complement value of a result.
\<close>

definition wrap64 :: "int \<Rightarrow> int" where
  "wrap64 x = (x + 2 ^ 63) mod 2 ^ 64 - 2 ^ 63"

text \<open>
  The slice expression \<^verbatim>\<open>xs[lo:hi]\<close> panics unless \<open>0 \<le> lo \<le> hi \<le> cap xs\<close>; the
  slices here have no spare capacity.
\<close>

definition slice :: "'a list \<Rightarrow> int \<Rightarrow> int \<Rightarrow> 'a list option" where
  "slice xs lo hi =
     (if 0 \<le> lo \<and> lo \<le> hi \<and> hi \<le> int (length xs)
      then Some (take (nat (hi - lo)) (drop (nat lo) xs)) else None)"

definition SplitByDoubleNewline :: "string \<Rightarrow> string list" where
  "SplitByDoubleNewline text = []"

definition splitByVerse :: "string \<Rightarrow> string list" where
  "splitByVerse text = SplitByDoubleNewline text"

datatype failure = Returned error | Panicked

text \<open>
  \<open>lyricsPage\<close> is the part of \<^verbatim>\<open>GetSongLyrics\<close> that follows the split, with the
  verses as its argument.
\<close>

definition lyricsPage :: "string list \<Rightarrow> int \<Rightarrow> int \<Rightarrow> failure + (string list \<times> int)" where
  "lyricsPage verses page pageSize =
     (let total = int (length verses);
          start0 = wrap64 (wrap64 (page - 1) * pageSize);
          start = (if start0 < 0 then 0 else start0);
          end0 = wrap64 (start + pageSize);
          endIdx = (if end0 > total then total else end0)
      in if start \<ge> total then Inr ([], total)
         else case slice verses start endIdx of
                None \<Rightarrow> Inl Panicked
              | Some vs \<Rightarrow> Inr (vs, total))"

definition GetSongLyrics ::
  "int \<Rightarrow> int \<Rightarrow> int \<Rightarrow> db \<Rightarrow> (failure + (string list \<times> int)) \<times> db" where
  "GetSongLyrics i page pageSize d =
     (case GetByID i d of
        (Inl err, d1) \<Rightarrow> (Inl (Returned err), d1)
      | (Inr None, d1) \<Rightarrow> (Inl (Returned (ErrNew ''song not found'')), d1)
      | (Inr (Some song), d1) \<Rightarrow> (lyricsPage (splitByVerse (Text song)) page pageSize, d1))"

definition mergeSong :: "Song \<Rightarrow> Song \<Rightarrow> Song" where
  "mergeSong song existing =
     (let song = (if GroupName song = [] then song\<lparr>GroupName := GroupName existing\<rparr> else song);
          song = (if Title song = [] then song\<lparr>Title := Title existing\<rparr> else song);
          song = (if ReleaseDate song = [] then song\<lparr>ReleaseDate := ReleaseDate existing\<rparr> else song);
          song = (if Link song = [] then song\<lparr>Link := Link existing\<rparr> else song);
          song = (if Text song = [] then song\<lparr>Text := Text existing\<rparr> else song)
      in song)"

definition UpdateSong :: "Song \<Rightarrow> db \<Rightarrow> error option \<times> db" where
  "UpdateSong song d =
     (case GetByID (ID song) d of
        (Inl err, d1) \<Rightarrow> (Some (ErrWrap ''failed to fetch existing song'' err), d1)
      | (Inr None, d1) \<Rightarrow> (Some (ErrNew ''song not found''), d1)
      | (Inr (Some existing), d1) \<Rightarrow>
          (case Update (mergeSong song existing) d1 of
             (Some err, d2) \<Rightarrow> (Some (ErrWrap ''failed to update song'' err), d2)
           | (None, d2) \<Rightarrow> (None, d2)))"

definition DeleteSong :: "int \<Rightarrow> db \<Rightarrow> error option \<times> db" where
  "DeleteSong songID d =
     (case GetByID songID d of
        (Inl err, d1) \<Rightarrow> (Some (ErrWrap ''failed to fetch existing song'' err), d1)
      | (Inr None, d1) \<Rightarrow> (Some (ErrNew ''song not found''), d1)
      | (Inr (Some existing), d1) \<Rightarrow>
          (case Delete songID d1 of
             (Some err, d2) \<Rightarrow> (Some (ErrWrap ''failed to delete song'' err), d2)
           | (None, d2) \<Rightarrow> (None, d2)))"

section \<open>The HTTP transport\<close>

text \<open>
  A request's query is the function \<^verbatim>\<open>Values.Get\<close>: the first value of a key, and the
  empty string for a key that is missing. The route variable \<^verbatim>\<open>id\<close> is present or not.
\<close>

type_synonym query = "string \<Rightarrow> string"

datatype decodeError = BadRoute | NumError numError

record ListSongsRequest =
  ReqGroupName :: string
  ReqTitle :: string
  Limit :: int
  Offset :: int

record ListSongsResponse =
  Songs :: "Song list"
  SongsErr :: string

record GetLyricsRequest =
  LyricsID :: int
  Page :: int
  PageSize :: int

record GetLyricsResponse =
  Lyrics :: "string list"
  Total :: int
  LyricsErr :: string

definition decodeListSongsRequest :: "query \<Rightarrow> decodeError + ListSongsRequest" where
  "decodeListSongsRequest vals =
     (let group = vals ''group'';
          title = vals ''title'';
          limit = fst (Atoi (vals ''limit''));
          offset = fst (Atoi (vals ''offset''))
      in Inr \<lparr>ReqGroupName = group, ReqTitle = title, Limit = limit, Offset = offset\<rparr>)"

definition decodeGetLyricsRequest :: "string option \<Rightarrow> query \<Rightarrow> decodeError + GetLyricsRequest" where
  "decodeGetLyricsRequest vars q =
     (case vars of
        None \<Rightarrow> Inl BadRoute
      | Some idStr \<Rightarrow>
          (case ParseInt idStr of
             (i, Some err) \<Rightarrow> Inl (NumError err)
           | (i, None) \<Rightarrow>
               let page = fst (Atoi (q ''page''));
                   page = (if page < 1 then 1 else page);
                   pageSize = fst (Atoi (q ''pageSize''));
                   pageSize = (if pageSize < 1 then 1 else pageSize)
               in Inr \<lparr>LyricsID = i, Page = page, PageSize = pageSize\<rparr>))"

text \<open>The endpoints call the service and put its error, if any, into the response.\<close>

definition ListSongsEndpoint :: "ListSongsRequest \<Rightarrow> db \<Rightarrow> ListSongsResponse \<times> db" where
  "ListSongsEndpoint req d =
     (let filter = \<lparr>FilterGroupName = ReqGroupName req, FilterTitle = ReqTitle req\<rparr> in
      case ListSongs filter (Limit req) (Offset req) d of
        (Inl err, d1) \<Rightarrow> (\<lparr>Songs = [], SongsErr = Error err\<rparr>, d1)
      | (Inr songs, d1) \<Rightarrow> (\<lparr>Songs = songs, SongsErr = []\<rparr>, d1))"

text \<open>A panic of the service passes through the endpoint: there is no response then.\<close>

definition GetLyricsEndpoint :: "GetLyricsRequest \<Rightarrow> db \<Rightarrow> GetLyricsResponse option \<times> db" where
  "GetLyricsEndpoint req d =
     (case GetSongLyrics (LyricsID req) (Page req) (PageSize req) d of
        (Inl (Returned err), d1) \<Rightarrow> (Some \<lparr>Lyrics = [], Total = 0, LyricsErr = Error err\<rparr>, d1)
      | (Inl Panicked, d1) \<Rightarrow> (None, d1)
      | (Inr (verses, tot), d1) \<Rightarrow>
          (Some \<lparr>Lyrics = verses, Total = tot, LyricsErr = []\<rparr>, d1))"

section \<open>Notions the properties are stated with\<close>


text \<open>A filter value with none of the characters that \<^verbatim>\<open>LIKE\<close> reads as pattern syntax.\<close>

definition plain :: "string \<Rightarrow> bool" where
  "plain v = list_all (\<lambda>c. c \<noteq> CHR ''%'' \<and> c \<noteq> CHR ''_'' \<and> c \<noteq> CHR 0x5C) v"

text \<open>\<open>v\<close> occurs in \<open>s\<close> as a run of consecutive characters, letter case aside.\<close>

definition containsFold :: "string \<Rightarrow> string \<Rightarrow> bool" where
  "containsFold v s = sublist (map toLower v) (map toLower s)"

text \<open>
  What a filter value asks of a column: to contain it, when the value is plain, and to
  match it as a pattern between two \<^verbatim>\<open>%\<close> otherwise.
\<close>

definition fieldMatches :: "string \<Rightarrow> string \<Rightarrow> bool" where
  "fieldMatches v s = (if plain v then containsFold v s else ilike (''%'' @ v @ ''%'') s)"

definition songMatches :: "SongFilter \<Rightarrow> Song \<Rightarrow> bool" where
  "songMatches f r =
     (fieldMatches (FilterGroupName f) (GroupName r) \<and> fieldMatches (FilterTitle f) (Title r))"

definition idDescending :: "Song list \<Rightarrow> bool" where
  "idDescending xs = sorted_wrt (\<lambda>a b. ID a \<ge> ID b) xs"

section \<open>Sample data\<close>

definition sampleText :: string where
  "sampleText = ''verse one'' @ [CHR 0x0A, CHR 0x0A] @ ''verse two'' @ [CHR 0x0A, CHR 0x0A] @ ''verse three''"

definition sampleSong :: Song where
  "sampleSong = \<lparr>ID = 1, GroupName = ''Pink Floyd'', Title = ''Time'',
     ReleaseDate = ''1973-03-01T00:00:00Z'', Link = ''https://example.org/time'', Text = sampleText,
     CreatedAt = 1, UpdatedAt = 1\<rparr>"

definition otherSong :: Song where
  "otherSong = \<lparr>ID = 2, GroupName = ''abc'', Title = ''Alphabet'',
     ReleaseDate = ''2001-01-01T00:00:00Z'', Link = ''https://example.org/abc'', Text = ''la la'',
     CreatedAt = 2, UpdatedAt = 2\<rparr>"

text \<open>
  The sample server reads the ISO form \<^verbatim>\<open>YYYY-MM-DD\<close> of a date, which PostgreSQL reads
  under every \<^verbatim>\<open>DateStyle\<close>, and refuses every other text.
\<close>

definition digitsVal :: "string \<Rightarrow> int" where
  "digitsVal s = foldl (\<lambda>n c. n * 10 + (of_char c - 48)) 0 s"

definition leapYear :: "int \<Rightarrow> bool" where
  "leapYear y = (y mod 4 = 0 \<and> (y mod 100 \<noteq> 0 \<or> y mod 400 = 0))"

definition daysIn :: "int \<Rightarrow> int \<Rightarrow> int" where
  "daysIn y m = (if m = 2 then (if leapYear y then 29 else 28)
                 else if m = 4 \<or> m = 6 \<or> m = 9 \<or> m = 11 then 30 else 31)"

definition isoDate :: "string \<Rightarrow> date option" where
  "isoDate s =
     (if length s = 10 \<and> s ! 4 = CHR ''-'' \<and> s ! 7 = CHR ''-'' \<and>
         list_all isDigit (take 4 s @ take 2 (drop 5 s) @ drop 8 s)
      then let y = digitsVal (take 4 s); m = digitsVal (take 2 (drop 5 s));
               dd = digitsVal (drop 8 s)
           in if 1 \<le> y \<and> 1 \<le> m \<and> m \<le> 12 \<and> 1 \<le> dd \<and> dd \<le> daysIn y m
              then Some (Date y m dd) else None
      else None)"

definition sampleDb :: db where
  "sampleDb = \<lparr>rows = [sampleSong, otherSong], seq = 2, now = 2, faults = [], trace = [],
     dateInput = isoDate\<rparr>"

definition failingDb :: db where
  "failingDb = sampleDb\<lparr>faults := [Some (AtQuery, ErrNew ''connection refused'')]\<rparr>"

definition clientDown :: client where
  "clientDown groupName songTitle = Inl (ErrNew ''expected 200, got 500'')"

definition sampleInfo :: SongInfo where
  "sampleInfo = \<lparr>InfoReleaseDate = ''2006-07-16'', InfoText = sampleText,
     InfoLink = ''https://example.org/supermassive''\<rparr>"

definition createdSong :: Song where
  "createdSong = \<lparr>ID = 3, GroupName = ''Muse'', Title = ''Supermassive Black Hole'',
     ReleaseDate = ''2006-07-16T00:00:00Z'', Link = ''https://example.org/supermassive'',
     Text = sampleText, CreatedAt = 3, UpdatedAt = 3\<rparr>"

definition clientUp :: client where
  "clientUp groupName songTitle = Inr sampleInfo"


definition wildFilter :: SongFilter where
  "wildFilter = \<lparr>FilterGroupName = ''a_c'', FilterTitle = []\<rparr>"

definition floydFilter :: SongFilter where
  "floydFilter = \<lparr>FilterGroupName = ''floyd'', FilterTitle = []\<rparr>"

definition noFilter :: SongFilter where
  "noFilter = \<lparr>FilterGroupName = [], FilterTitle = []\<rparr>"

definition hugeLimitRequest :: ListSongsRequest where
  "hugeLimitRequest = \<lparr>ReqGroupName = [], ReqTitle = [], Limit = 9223372036854775807, Offset = 0\<rparr>"

definition sampleQuery :: query where
  "sampleQuery k = (if k = ''page'' then ''0'' else if k = ''pageSize'' then ''-3''
                    else if k = ''limit'' then ''ten'' else [])"

definition pageTenQuery :: query where
  "pageTenQuery k = (if k = ''page'' then ''10'' else if k = ''pageSize'' then ''1'' else [])"

definition hugeLimitQuery :: query where
  "hugeLimitQuery k = (if k = ''limit'' then ''99999999999999999999'' else [])"

section \<open>Basic facts about the store\<close>

lemma rows_exec [simp]: "rows (exec c d) = rows d"
  by (simp add: exec_def)

lemma trace_exec [simp]: "trace (exec c d) = trace d @ [c]"
  by (simp add: exec_def)

lemma seq_exec [simp]: "seq (exec c d) = seq d"
  by (simp add: exec_def)

lemma now_exec [simp]: "now (exec c d) = Suc (now d)"
  by (simp add: exec_def)

lemma faults_exec [simp]: "faults (exec c d) = tl (faults d)"
  by (simp add: exec_def)

lemma find_absent: "i \<notin> ID ` set xs \<Longrightarrow> find (\<lambda>s. ID s = i) xs = None"
  by (induction xs) auto

lemma GetByID_found:
  "nextFault d = None \<Longrightarrow>
   GetByID i d = (Inr (find (\<lambda>s. ID s = i) (rows d)), exec (CallGetByID i) d)"
  by (simp add: GetByID_def Let_def exec_def)

lemma GetByID_fails:
  "nextFault d = Some (st, e) \<Longrightarrow> \<not> Is e ErrNoRows \<Longrightarrow>
   GetByID i d = (Inl (ErrWrap ''failed to get song by ID'' e), exec (CallGetByID i) d)"
  by (simp add: GetByID_def Let_def)

lemma GetByID_cases:
  "(\<exists>e. fst (GetByID i d) = Inl e) \<or> fst (GetByID i d) = Inr None \<or>
   (\<exists>s. fst (GetByID i d) = Inr (Some s))"
  by (cases "fst (GetByID i d)") auto

lemma GetByID_snd: "snd (GetByID i d) = exec (CallGetByID i) d"
  by (simp add: GetByID_def Let_def split: option.splits prod.splits)

lemma GetByID_absent:
  assumes "i \<notin> ID ` set (rows d)"
  shows "(\<exists>e. fst (GetByID i d) = Inl e) \<or> fst (GetByID i d) = Inr None"
  using assms by (auto simp: GetByID_def Let_def find_absent split: option.splits)

lemma GetByID_absent_ok:
  assumes "i \<notin> ID ` set (rows d)" and "nextFault d = None"
  shows "GetByID i d = (Inr None, exec (CallGetByID i) d)"
  using assms by (simp add: GetByID_found find_absent)

lemma nextFault_sampleDb: "nextFault sampleDb = None"
  by (simp add: nextFault_def sampleDb_def)

lemma find_sampleSong: "find (\<lambda>s. ID s = 1) (rows sampleDb) = Some sampleSong"
  by (simp add: sampleDb_def sampleSong_def)

lemma nextFault_failingDb: "nextFault failingDb = Some (AtQuery, ErrNew ''connection refused'')"
  by (simp add: nextFault_def failingDb_def)

lemma not_Is_refused: "\<not> Is (ErrNew ''connection refused'') ErrNoRows"
  by (simp add: ErrNoRows_def)

lemma fmtD_1: "fmtD 1 = ''1''"
  by code_simp

section \<open>Pages of lyrics\<close>

lemma lyricsPage_Nil: "lyricsPage [] page pageSize = Inr ([], 0)"
  by (simp add: lyricsPage_def Let_def)

lemma GetSongLyrics_found:
  assumes "nextFault d = None" and "find (\<lambda>s. ID s = i) (rows d) = Some song"
  shows "GetSongLyrics i page pageSize d =
           (lyricsPage (splitByVerse (Text song)) page pageSize, exec (CallGetByID i) d)"
  using assms by (simp add: GetSongLyrics_def GetByID_found)

text \<open>
  For any list of verses, a page and a page size of at least 1 whose window ends below
  \<open>2^63\<close> select the window \<open>[(page - 1) * pageSize, (page - 1) * pageSize + pageSize)\<close>
  cut to the verses there are. Without these bounds the slice expression can panic on a
  list that is not empty: for a page size below 1, which the request decoder excludes,
  and for a page and page size whose product leaves the 64 bits, which it does not.
\<close>

lemma wrap64_id: "- (2 ^ 63) \<le> x \<Longrightarrow> x < 2 ^ 63 \<Longrightarrow> wrap64 x = x"
  by (simp add: wrap64_def)

lemma lyricsPage_window:
  assumes "1 \<le> page" and "1 \<le> pageSize" and "(page - 1) * pageSize + pageSize < 2 ^ 63"
  shows "lyricsPage verses page pageSize =
           Inr (take (nat pageSize) (drop (nat ((page - 1) * pageSize)) verses), int (length verses))"
proof -
  let ?s = "(page - 1) * pageSize"
  have p0: "0 \<le> page - 1" using assms(1) by simp
  have s0: "0 \<le> ?s" using p0 assms(2) by simp
  have "page - 1 \<le> ?s" using p0 assms(2) by (simp add: mult_le_cancel_left1)
  then have w1: "wrap64 (page - 1) = page - 1"
    using p0 s0 assms(2,3) by (intro wrap64_id) linarith+
  have w2: "wrap64 ?s = ?s"
    using s0 assms(2,3) by (intro wrap64_id) linarith+
  have w3: "wrap64 (?s + pageSize) = ?s + pageSize"
    using s0 assms(2,3) by (intro wrap64_id) linarith+
  show ?thesis
  proof (cases "int (length verses) \<le> ?s")
    case True
    then have "length verses \<le> nat ?s" by linarith
    then show ?thesis using True s0 by (simp add: lyricsPage_def Let_def w1 w2 w3)
  next
    case False
    then have lt: "?s < int (length verses)" by simp
    show ?thesis
    proof (cases "int (length verses) < ?s + pageSize")
      case True
      then have "length verses - nat ?s \<le> nat pageSize" using s0 by linarith
      then have "take (nat pageSize) (drop (nat ?s) verses) = drop (nat ?s) verses"
        by simp
      moreover have "take (nat (int (length verses) - ?s)) (drop (nat ?s) verses) = drop (nat ?s) verses"
        using s0 by (simp add: nat_diff_distrib')
      ultimately show ?thesis
        using True lt s0 by (simp add: lyricsPage_def Let_def w1 w2 w3 slice_def)
    next
      case False
      then show ?thesis
        using lt s0 assms(2) by (simp add: lyricsPage_def Let_def w1 w2 w3 slice_def)
    qed
  qed
qed

lemma lyricsPage_can_panic: "lyricsPage [''a'', ''b'', ''c''] 0 (- 1) = Inl Panicked"
  by (simp add: lyricsPage_def Let_def wrap64_def slice_def)

lemma lyricsPage_overflow_panic:
  "lyricsPage [''a'', ''b'', ''c'', ''d''] 9223372036854775806 9223372036854775807 = Inl Panicked"
  by (simp add: lyricsPage_def Let_def wrap64_def slice_def)

lemma GetLyricsEndpoint_fst:
  "fst (GetLyricsEndpoint req d) =
     (case fst (GetSongLyrics (LyricsID req) (Page req) (PageSize req) d) of
        Inl (Returned err) \<Rightarrow> Some \<lparr>Lyrics = [], Total = 0, LyricsErr = Error err\<rparr>
      | Inl Panicked \<Rightarrow> None
      | Inr (verses, tot) \<Rightarrow> Some \<lparr>Lyrics = verses, Total = tot, LyricsErr = []\<rparr>)"
  by (simp add: GetLyricsEndpoint_def split: prod.splits sum.splits failure.splits)

lemma decodeGetLyricsRequest_Inr:
  assumes "decodeGetLyricsRequest vars q = Inr req"
  shows "Page req = max 1 (fst (Atoi (q ''page''))) \<and>
         PageSize req = max 1 (fst (Atoi (q ''pageSize'')))"
  using assms
  by (auto simp: decodeGetLyricsRequest_def Let_def max_def split: option.splits prod.splits)

lemma Atoi_0: "Atoi ''0'' = (0, None)"
  by code_simp

lemma Atoi_minus3: "Atoi ''-3'' = (- 3, None)"
  by code_simp

lemma ParseInt_1: "ParseInt ''1'' = (1, None)"
  by code_simp

text \<open>
  C1. The song stored under id 1 in \<open>sampleDb\<close> has the text
  \<^verbatim>\<open>"verse one\n\nverse two\n\nverse three"\<close>. \<^verbatim>\<open>GetSongLyrics\<close> answers page 1 of
  size 1, page 2 of size 2 and page 10 of size 1 alike: no verse, and a total of 0, since
  \<^verbatim>\<open>SplitByDoubleNewline\<close> returns the empty slice for every text.
\<close>

theorem GetSongLyrics_sample_text_no_verses:
  "Text sampleSong = ''verse one'' @ [CHR 0x0A, CHR 0x0A] @ ''verse two'' @ [CHR 0x0A, CHR 0x0A] @ ''verse three'' \<and>
   fst (GetSongLyrics 1 1 1 sampleDb) = Inr ([], 0) \<and>
   fst (GetSongLyrics 1 2 2 sampleDb) = Inr ([], 0) \<and>
   fst (GetSongLyrics 1 10 1 sampleDb) = Inr ([], 0)"
  by (simp add: GetSongLyrics_found [OF nextFault_sampleDb find_sampleSong]
      splitByVerse_def SplitByDoubleNewline_def lyricsPage_Nil)
    (simp add: sampleSong_def sampleText_def)

text \<open>
  C9. For every id, page and page size (zero and negative ones too) and every state of
  the store, \<^verbatim>\<open>GetSongLyrics\<close> does not panic in its slice expression: it returns an
  error, or it returns verses and a total, with no more verses than the total and a total
  that is not negative.
\<close>

theorem GetSongLyrics_slice_in_bounds:
  "(\<exists>e. fst (GetSongLyrics i page pageSize d) = Inl (Returned e)) \<or>
   (\<exists>vs n. fst (GetSongLyrics i page pageSize d) = Inr (vs, n) \<and> 0 \<le> n \<and> int (length vs) \<le> n)"
  using GetByID_cases [of i d]
  by (auto simp: GetSongLyrics_def splitByVerse_def SplitByDoubleNewline_def lyricsPage_Nil
      split: prod.splits sum.splits option.splits)

lemma decodeGetLyricsRequest_clamps:
  assumes "ParseInt idStr = (i, None)"
  shows "decodeGetLyricsRequest (Some idStr) q =
           Inr \<lparr>LyricsID = i, Page = max 1 (fst (Atoi (q ''page''))),
                PageSize = max 1 (fst (Atoi (q ''pageSize'')))\<rparr>"
  using assms by (simp add: decodeGetLyricsRequest_def Let_def max_def)

lemma Atoi_10: "Atoi ''10'' = (10, None)"
  by code_simp

lemma Atoi_1: "Atoi ''1'' = (1, None)"
  by code_simp

text \<open>
  C4. The song stored under id 1 in \<open>sampleDb\<close> has the text
  \<^verbatim>\<open>"verse one\n\nverse two\n\nverse three"\<close>, of three verses. A request for page 10
  with page size 1 is decoded as it is, the window starts beyond the verses, and
  \<^verbatim>\<open>GetSongLyrics\<close> returns no verse, with a total of 0 and not of 3. A request for
  page 0 with page size -3 is decoded as page 1 with page size 1, and \<^verbatim>\<open>GetSongLyrics\<close>
  returns no verse and a total of 0 for the window that holds the first verse. The total
  is the length of what \<^verbatim>\<open>SplitByDoubleNewline\<close> returns, the empty slice for every text.
\<close>

theorem GetLyrics_window_reports_no_total:
  "rows sampleDb = [sampleSong, otherSong] \<and> ID sampleSong = 1 \<and>
   Text sampleSong = ''verse one'' @ [CHR 0x0A, CHR 0x0A] @ ''verse two'' @ [CHR 0x0A, CHR 0x0A] @ ''verse three'' \<and>
   decodeGetLyricsRequest (Some ''1'') pageTenQuery = Inr \<lparr>LyricsID = 1, Page = 10, PageSize = 1\<rparr> \<and>
   fst (GetSongLyrics 1 10 1 sampleDb) = Inr ([], 0) \<and>
   fst (GetLyricsEndpoint \<lparr>LyricsID = 1, Page = 10, PageSize = 1\<rparr> sampleDb) =
     Some \<lparr>Lyrics = [], Total = 0, LyricsErr = []\<rparr> \<and>
   decodeGetLyricsRequest (Some ''1'') sampleQuery = Inr \<lparr>LyricsID = 1, Page = 1, PageSize = 1\<rparr> \<and>
   fst (GetSongLyrics 1 1 1 sampleDb) = Inr ([], 0) \<and>
   fst (GetLyricsEndpoint \<lparr>LyricsID = 1, Page = 1, PageSize = 1\<rparr> sampleDb) =
     Some \<lparr>Lyrics = [], Total = 0, LyricsErr = []\<rparr>"
proof -
  have q: "sampleQuery ''page'' = ''0''" "sampleQuery ''pageSize'' = ''-3''"
    "pageTenQuery ''page'' = ''10''" "pageTenQuery ''pageSize'' = ''1''"
    by (simp_all add: sampleQuery_def pageTenQuery_def)
  have d10: "decodeGetLyricsRequest (Some ''1'') pageTenQuery =
               Inr \<lparr>LyricsID = 1, Page = 10, PageSize = 1\<rparr>"
    by (simp add: decodeGetLyricsRequest_clamps [OF ParseInt_1] q Atoi_10 Atoi_1)
  have d1: "decodeGetLyricsRequest (Some ''1'') sampleQuery =
               Inr \<lparr>LyricsID = 1, Page = 1, PageSize = 1\<rparr>"
    by (simp add: decodeGetLyricsRequest_clamps [OF ParseInt_1] q Atoi_0 Atoi_minus3)
  have g: "fst (GetSongLyrics 1 page pageSize sampleDb) = Inr ([], 0)" for page pageSize
    by (simp add: GetSongLyrics_found [OF nextFault_sampleDb find_sampleSong]
        splitByVerse_def SplitByDoubleNewline_def lyricsPage_Nil)
  have e: "fst (GetLyricsEndpoint \<lparr>LyricsID = 1, Page = page, PageSize = pageSize\<rparr> sampleDb) =
             Some \<lparr>Lyrics = [], Total = 0, LyricsErr = []\<rparr>" for page pageSize
    by (simp add: GetLyricsEndpoint_fst g)
  have t: "rows sampleDb = [sampleSong, otherSong] \<and> ID sampleSong = 1 \<and>
           Text sampleSong = ''verse one'' @ [CHR 0x0A, CHR 0x0A] @ ''verse two'' @ [CHR 0x0A, CHR 0x0A] @ ''verse three''"
    by (simp add: sampleDb_def sampleSong_def sampleText_def)
  show ?thesis
    using t d10 d1 g [of 10 1] g [of 1 1] e [of 10 1] e [of 1 1] by simp
qed

section \<open>Creating a song\<close>

text \<open>
  C2. For every group name and title: when the external client fails, \<^verbatim>\<open>CreateSong\<close>
  returns an error (the client's, wrapped) and leaves the store as it was; no repository
  method is called, so the table, its sequence and the record of calls are unchanged.
\<close>

theorem CreateSong_enrichment_failure:
  "fetch groupName songTitle = Inl err \<Longrightarrow>
   CreateSong fetch groupName songTitle d =
     (Inl (ErrWrap ''failed to fetch external data'' err), d)"
  by (simp add: CreateSong_def)

theorem CreateSong_enrichment_failure_witness:
  "clientDown ''Muse'' ''Hysteria'' = Inl (ErrNew ''expected 200, got 500'') \<and>
   CreateSong clientDown ''Muse'' ''Hysteria'' sampleDb =
     (Inl (ErrWrap ''failed to fetch external data'' (ErrNew ''expected 200, got 500'')), sampleDb)"
  using CreateSong_enrichment_failure
    [of clientDown "''Muse''" "''Hysteria''" "ErrNew ''expected 200, got 500''" sampleDb]
  by (simp add: clientDown_def)

section \<open>Errors of the store in the service\<close>

lemma lookup_failure_in_service:
  assumes "fst (GetByID i d) = Inl e"
  shows "fst (GetSong i d) = Inl (ErrWrap (''failed to retrieve song with ID='' @ fmtD i) e)"
    and "ID song = i \<Longrightarrow> fst (UpdateSong song d) = Some (ErrWrap ''failed to fetch existing song'' e)"
    and "fst (DeleteSong i d) = Some (ErrWrap ''failed to fetch existing song'' e)"
    and "fst (GetSongLyrics i page pageSize d) = Inl (Returned e)"
  using assms
  by (cases "GetByID i d"; simp add: GetSong_def UpdateSong_def DeleteSong_def GetSongLyrics_def)+

text \<open>
  C5. In \<open>failingDb\<close> the next statement fails with \<^verbatim>\<open>connection refused\<close>.
  \<^verbatim>\<open>GetByID\<close> returns that failure under the repository's message; \<^verbatim>\<open>GetSongLyrics\<close>
  returns the repository's error as it is, with no message of its own, where
  \<^verbatim>\<open>GetSong\<close> wraps the same error with a message that names the operation.
\<close>

theorem GetSongLyrics_lookup_failure_not_wrapped:
  "fst (GetByID 1 failingDb) =
     Inl (ErrWrap ''failed to get song by ID'' (ErrNew ''connection refused'')) \<and>
   fst (GetSongLyrics 1 1 1 failingDb) =
     Inl (Returned (ErrWrap ''failed to get song by ID'' (ErrNew ''connection refused''))) \<and>
   fst (GetSong 1 failingDb) =
     Inl (ErrWrap ''failed to retrieve song with ID=1''
           (ErrWrap ''failed to get song by ID'' (ErrNew ''connection refused'')))"
  by (simp add: GetSongLyrics_def GetSong_def fmtD_1
      GetByID_fails [OF nextFault_failingDb not_Is_refused])

section \<open>Updating and deleting a song that is not there\<close>

text \<open>
  C6. For every id under which the table has no row, \<^verbatim>\<open>UpdateSong\<close> and
  \<^verbatim>\<open>DeleteSong\<close> call \<^verbatim>\<open>GetByID\<close> and nothing else (neither \<^verbatim>\<open>Update\<close> nor
  \<^verbatim>\<open>Delete\<close>), so the table keeps its rows; and when the lookup itself does not fail,
  both return the error \<^verbatim>\<open>song not found\<close>.
\<close>

theorem UpdateSong_DeleteSong_not_found:
  assumes "i \<notin> ID ` set (rows d)" and "ID song = i"
  shows "rows (snd (UpdateSong song d)) = rows d \<and>
         trace (snd (UpdateSong song d)) = trace d @ [CallGetByID i] \<and>
         rows (snd (DeleteSong i d)) = rows d \<and>
         trace (snd (DeleteSong i d)) = trace d @ [CallGetByID i] \<and>
         (nextFault d = None \<longrightarrow>
            fst (UpdateSong song d) = Some (ErrNew ''song not found'') \<and>
            fst (DeleteSong i d) = Some (ErrNew ''song not found''))"
proof -
  have s: "snd (GetByID i d) = exec (CallGetByID i) d"
    by (rule GetByID_snd)
  from GetByID_absent [OF assms(1)]
  have u: "snd (UpdateSong song d) = exec (CallGetByID i) d"
    using s assms(2) by (cases "GetByID i d") (auto simp: UpdateSong_def)
  from GetByID_absent [OF assms(1)]
  have dl: "snd (DeleteSong i d) = exec (CallGetByID i) d"
    using s by (cases "GetByID i d") (auto simp: DeleteSong_def)
  have nf: "nextFault d = None \<Longrightarrow>
      fst (UpdateSong song d) = Some (ErrNew ''song not found'') \<and>
      fst (DeleteSong i d) = Some (ErrNew ''song not found'')"
    using assms by (simp add: UpdateSong_def DeleteSong_def GetByID_absent_ok)
  show ?thesis using u dl nf by simp
qed

theorem UpdateSong_DeleteSong_not_found_witness:
  "7 \<notin> ID ` set (rows sampleDb) \<and> nextFault sampleDb = None \<and>
   fst (UpdateSong (sampleSong\<lparr>ID := 7\<rparr>) sampleDb) = Some (ErrNew ''song not found'') \<and>
   fst (DeleteSong 7 sampleDb) = Some (ErrNew ''song not found'') \<and>
   rows (snd (UpdateSong (sampleSong\<lparr>ID := 7\<rparr>) sampleDb)) = rows sampleDb \<and>
   rows (snd (DeleteSong 7 sampleDb)) = rows sampleDb \<and>
   trace (snd (UpdateSong (sampleSong\<lparr>ID := 7\<rparr>) sampleDb)) = [CallGetByID 7] \<and>
   trace (snd (DeleteSong 7 sampleDb)) = [CallGetByID 7]"
proof -
  have a: "7 \<notin> ID ` set (rows sampleDb)"
    by (simp add: sampleDb_def sampleSong_def otherSong_def)
  have b: "ID (sampleSong\<lparr>ID := 7\<rparr>) = 7" by simp
  have t: "trace sampleDb = []" by (simp add: sampleDb_def)
  show ?thesis
    using UpdateSong_DeleteSong_not_found [OF a b] a nextFault_sampleDb t by simp
qed

section \<open>Updating a song\<close>




lemma find_append_fresh:
  "i \<notin> ID ` set xs \<Longrightarrow> find (\<lambda>s. ID s = i) (xs @ ys) = find (\<lambda>s. ID s = i) ys"
  by (induction xs) auto










section \<open>Creating a song and reading it back\<close>

lemma dateInput_exec [simp]: "dateInput (exec c d) = dateInput d"
  by (simp add: exec_def)

lemma Create_ok:
  assumes "Create song d = (Inr newID, d1)"
  shows "\<exists>releaseDate. dateInput d (ReleaseDate song) = Some releaseDate \<and>
         newID \<notin> ID ` set (rows d) \<and>
         rows d1 = rows d @ [\<lparr>ID = newID, GroupName = GroupName song, Title = Title song,
                    ReleaseDate = rfc3339 releaseDate, Link = Link song, Text = Text song,
                    CreatedAt = Suc (now d), UpdatedAt = Suc (now d)\<rparr>]"
  using assms by (auto simp: Create_def Let_def split: option.splits if_splits)

lemma CreateSong_ok:
  assumes "fetch g t = Inr info" and "CreateSong fetch g t d = (Inr newID, d1)"
  shows "\<exists>releaseDate. dateInput d (InfoReleaseDate info) = Some releaseDate \<and>
         newID \<notin> ID ` set (rows d) \<and>
         rows d1 = rows d @ [\<lparr>ID = newID, GroupName = g, Title = t,
                    ReleaseDate = rfc3339 releaseDate, Link = InfoLink info, Text = InfoText info,
                    CreatedAt = Suc (now d), UpdatedAt = Suc (now d)\<rparr>]"
proof -
  let ?song = "\<lparr>ID = 0, GroupName = g, Title = t, ReleaseDate = InfoReleaseDate info,
                Link = InfoLink info, Text = InfoText info, CreatedAt = 0, UpdatedAt = 0\<rparr>"
  from assms have "Create ?song d = (Inr newID, d1)"
    by (auto simp: CreateSong_def Let_def split: prod.splits sum.splits)
  from Create_ok [OF this] show ?thesis by simp
qed

lemma Create_refuses_date:
  assumes "nextFault d = None" and "dateInput d (ReleaseDate song) = None"
  shows "fst (Create song d) =
           Inl (ErrWrap ''failed to insert new song'' (ErrNew ''pq: invalid input syntax for type date''))"
    and "rows (snd (Create song d)) = rows d"
  using assms by (simp_all add: Create_def Let_def)

lemma isoDate_sample: "isoDate ''2006-07-16'' = Some (Date 2006 7 16)"
  by code_simp

lemma rfc3339_sample: "rfc3339 (Date 2006 7 16) = ''2006-07-16T00:00:00Z''"
  by code_simp

lemma CreateSong_sample:
  "CreateSong clientUp ''Muse'' ''Supermassive Black Hole'' sampleDb =
     (Inr 3, sampleDb\<lparr>rows := [sampleSong, otherSong, createdSong], seq := 3, now := 3,
                      trace := [CallCreate (createdSong\<lparr>ID := 0, ReleaseDate := ''2006-07-16'',
                                  CreatedAt := 0, UpdatedAt := 0\<rparr>)]\<rparr>)"
  by (simp add: CreateSong_def clientUp_def sampleInfo_def Create_def Let_def nextFault_sampleDb
      exec_def)
     (simp add: sampleDb_def isoDate_sample rfc3339_sample sampleSong_def otherSong_def
      createdSong_def)

text \<open>
  C8, as the specification words it, fails in the release date. The client answers with
  the release date \<^verbatim>\<open>2006-07-16\<close>; \<^verbatim>\<open>CreateSong\<close> succeeds with id 3, and
  \<^verbatim>\<open>GetSong\<close> on 3 returns the song with the release date
  \<^verbatim>\<open>2006-07-16T00:00:00Z\<close>, the date column's value as the scan writes it, not the text
  of the answer.
\<close>

theorem CreateSong_release_date_counterexample:
  "clientUp ''Muse'' ''Supermassive Black Hole'' = Inr sampleInfo \<and>
   InfoReleaseDate sampleInfo = ''2006-07-16'' \<and>
   fst (CreateSong clientUp ''Muse'' ''Supermassive Black Hole'' sampleDb) = Inr 3 \<and>
   fst (GetSong 3 (snd (CreateSong clientUp ''Muse'' ''Supermassive Black Hole'' sampleDb))) =
     Inr createdSong \<and>
   ReleaseDate createdSong = ''2006-07-16T00:00:00Z'' \<and>
   ReleaseDate createdSong \<noteq> InfoReleaseDate sampleInfo"
proof -
  let ?d1 = "snd (CreateSong clientUp ''Muse'' ''Supermassive Black Hole'' sampleDb)"
  have n: "nextFault ?d1 = None"
    by (simp add: CreateSong_sample) (simp add: nextFault_def sampleDb_def)
  have r: "rows ?d1 = [sampleSong, otherSong, createdSong]"
    by (simp add: CreateSong_sample)
  have g: "fst (GetSong 3 ?d1) = Inr createdSong"
    by (simp add: GetSong_def GetByID_found [OF n] r)
       (simp add: sampleSong_def otherSong_def createdSong_def)
  show ?thesis
    using g by (simp add: CreateSong_sample) (simp add: clientUp_def sampleInfo_def createdSong_def)
qed

text \<open>
  C8. When \<^verbatim>\<open>CreateSong\<close> succeeds with the id \<open>newID\<close> on the client's answer
  \<open>info\<close>, and the following lookup does not fail, \<^verbatim>\<open>GetSong\<close> on \<open>newID\<close> returns
  a song with that id, the group name and title given to \<^verbatim>\<open>CreateSong\<close>, the link and
  text of \<open>info\<close>, and a creation time equal to its update time. Its release date is the
  date \<open>releaseDate\<close> that the server read from the release date of \<open>info\<close>, in the
  RFC 3339 form of that day at midnight UTC.
\<close>

theorem CreateSong_then_GetSong:
  assumes "fetch groupName songTitle = Inr info"
    and "CreateSong fetch groupName songTitle d = (Inr newID, d1)"
    and "nextFault d1 = None"
  shows "\<exists>s releaseDate. fst (GetSong newID d1) = Inr s \<and> ID s = newID \<and>
           GroupName s = groupName \<and> Title s = songTitle \<and>
           Link s = InfoLink info \<and> Text s = InfoText info \<and> CreatedAt s = UpdatedAt s \<and>
           dateInput d (InfoReleaseDate info) = Some releaseDate \<and>
           ReleaseDate s = rfc3339 releaseDate"
proof -
  from CreateSong_ok [OF assms(1,2)]
  obtain releaseDate where dt: "dateInput d (InfoReleaseDate info) = Some releaseDate"
    and fresh: "newID \<notin> ID ` set (rows d)"
    and r: "rows d1 = rows d @ [\<lparr>ID = newID, GroupName = groupName, Title = songTitle,
                    ReleaseDate = rfc3339 releaseDate, Link = InfoLink info, Text = InfoText info,
                    CreatedAt = Suc (now d), UpdatedAt = Suc (now d)\<rparr>]"
    by auto
  show ?thesis
    by (simp add: GetSong_def GetByID_found [OF assms(3)] r find_append_fresh [OF fresh] dt)
qed

theorem CreateSong_then_GetSong_witness:
  "clientUp ''Muse'' ''Supermassive Black Hole'' = Inr sampleInfo \<and>
   fst (CreateSong clientUp ''Muse'' ''Supermassive Black Hole'' sampleDb) = Inr 3 \<and>
   nextFault (snd (CreateSong clientUp ''Muse'' ''Supermassive Black Hole'' sampleDb)) = None \<and>
   dateInput sampleDb ''2006-07-16'' = Some (Date 2006 7 16) \<and>
   (\<exists>s. fst (GetSong 3 (snd (CreateSong clientUp ''Muse'' ''Supermassive Black Hole'' sampleDb))) = Inr s \<and>
        ID s = 3 \<and> GroupName s = ''Muse'' \<and> Title s = ''Supermassive Black Hole'' \<and>
        Link s = ''https://example.org/supermassive'' \<and>
        Text s = sampleText \<and> CreatedAt s = UpdatedAt s \<and>
        ReleaseDate s = ''2006-07-16T00:00:00Z'')"
proof -
  let ?r = "CreateSong clientUp ''Muse'' ''Supermassive Black Hole'' sampleDb"
  have c: "clientUp ''Muse'' ''Supermassive Black Hole'' = Inr sampleInfo"
    by (simp add: clientUp_def)
  have f: "fst ?r = Inr 3"
    by (simp add: CreateSong_sample)
  have n: "nextFault (snd ?r) = None"
    by (simp add: CreateSong_sample) (simp add: nextFault_def sampleDb_def)
  have p: "?r = (Inr 3, snd ?r)" using f by (cases ?r) simp
  have i: "InfoReleaseDate sampleInfo = ''2006-07-16''" "InfoText sampleInfo = sampleText"
    "InfoLink sampleInfo = ''https://example.org/supermassive''"
    by (simp_all add: sampleInfo_def)
  have di: "dateInput sampleDb ''2006-07-16'' = Some (Date 2006 7 16)"
    by (simp add: sampleDb_def isoDate_sample)
  from CreateSong_then_GetSong [OF c p n]
  obtain s releaseDate where s: "fst (GetSong 3 (snd ?r)) = Inr s" "ID s = 3"
    "GroupName s = ''Muse''" "Title s = ''Supermassive Black Hole''"
    "Link s = InfoLink sampleInfo" "Text s = InfoText sampleInfo" "CreatedAt s = UpdatedAt s"
    "dateInput sampleDb (InfoReleaseDate sampleInfo) = Some releaseDate"
    "ReleaseDate s = rfc3339 releaseDate"
    by auto
  from s(8) have "releaseDate = Date 2006 7 16" by (simp add: i di)
  then have "ReleaseDate s = ''2006-07-16T00:00:00Z''"
    using s(9) by (simp add: rfc3339_sample)
  then show ?thesis
    using c f n di s(1-7) by (simp add: i)
qed

section \<open>Listing songs\<close>

subsection \<open>Patterns and substrings\<close>

lemma like_percent: "like [CHR ''%''] s"
  by (induction s) auto

lemma like_percent_Cons:
  "like (CHR ''%'' # ps) s \<longleftrightarrow> (\<exists>a b. s = a @ b \<and> like ps b)"
proof (induction s)
  case Nil
  then show ?case by simp
next
  case (Cons c t)
  have "(\<exists>a b. c # t = a @ b \<and> like ps b) \<longleftrightarrow>
        like ps (c # t) \<or> (\<exists>a b. t = a @ b \<and> like ps b)"
    by (auto simp: Cons_eq_append_conv)
  with Cons show ?case by simp
qed

lemma like_plain_prefix:
  assumes "plain v"
  shows "like (v @ rest) s \<longleftrightarrow> (\<exists>t. s = v @ t \<and> like rest t)"
  using assms
proof (induction v arbitrary: s)
  case Nil
  then show ?case by simp
next
  case (Cons p ps)
  then have p: "p \<noteq> CHR ''%''" "p \<noteq> CHR ''_''" "p \<noteq> CHR 0x5C" and ps: "plain ps"
    by (simp_all add: plain_def)
  show ?case
  proof (cases s)
    case Nil
    then show ?thesis using p by simp
  next
    case (Cons c t)
    then show ?thesis using p Cons.IH [OF ps, of t] by auto
  qed
qed

lemma like_contains:
  assumes "plain v"
  shows "like (''%'' @ v @ ''%'') s \<longleftrightarrow> sublist v s"
proof -
  have "like (''%'' @ v @ ''%'') s \<longleftrightarrow> (\<exists>a b. s = a @ b \<and> like (v @ ''%'') b)"
    using like_percent_Cons [of "v @ ''%''" s] by simp
  also have "\<dots> \<longleftrightarrow> (\<exists>a b. s = a @ b \<and> (\<exists>t. b = v @ t))"
    by (simp add: like_plain_prefix [OF assms] like_percent)
  also have "\<dots> \<longleftrightarrow> sublist v s"
    by (auto simp: sublist_def)
  finally show ?thesis .
qed

lemma of_char_toLower:
  "(of_char (toLower c) :: nat) =
     (if 65 \<le> (of_char c :: nat) \<and> (of_char c :: nat) \<le> 90 then of_char c + 32 else of_char c)"
  by (simp add: toLower_def)

lemma toLower_special:
  "toLower c = CHR ''%'' \<longleftrightarrow> c = CHR ''%''"
  "toLower c = CHR ''_'' \<longleftrightarrow> c = CHR ''_''"
  "toLower c = CHR 0x5C \<longleftrightarrow> c = CHR 0x5C"
proof -
  have e: "\<And>x y :: char. x = y \<longleftrightarrow> (of_char x :: nat) = of_char y"
    by simp
  show "toLower c = CHR ''%'' \<longleftrightarrow> c = CHR ''%''"
    unfolding e [of "toLower c"] e [of c] of_char_toLower by auto
  show "toLower c = CHR ''_'' \<longleftrightarrow> c = CHR ''_''"
    unfolding e [of "toLower c"] e [of c] of_char_toLower by auto
  show "toLower c = CHR 0x5C \<longleftrightarrow> c = CHR 0x5C"
    unfolding e [of "toLower c"] e [of c] of_char_toLower by auto
qed

lemma plain_map_toLower: "plain (map toLower v) = plain v"
  by (induction v) (simp_all add: plain_def toLower_special)

lemma ilike_contains:
  assumes "plain v"
  shows "ilike (''%'' @ v @ ''%'') s \<longleftrightarrow> containsFold v s"
proof -
  have "map toLower (''%'' @ v @ ''%'') = ''%'' @ map toLower v @ ''%''"
    by (simp add: toLower_def)
  then show ?thesis
    using like_contains [of "map toLower v" "map toLower s"] assms
    by (simp add: ilike_def containsFold_def plain_map_toLower)
qed

lemma fieldMatches_ilike: "fieldMatches v s \<longleftrightarrow> ilike (''%'' @ v @ ''%'') s"
  using ilike_contains [of v s] by (simp add: fieldMatches_def)

lemma fieldMatches_empty: "fieldMatches [] s"
  by (simp add: fieldMatches_def plain_def containsFold_def)

lemma rowMatches_whereClauses: "rowMatches (whereClauses f) = songMatches f"
proof
  fix r
  show "rowMatches (whereClauses f) r = songMatches f r"
    using fieldMatches_empty [of "GroupName r"] fieldMatches_empty [of "Title r"]
    by (auto simp: rowMatches_def whereClauses_def songMatches_def fieldMatches_ilike)
qed

lemma songMatches_no_filter:
  "FilterGroupName f = [] \<Longrightarrow> FilterTitle f = [] \<Longrightarrow> songMatches f r"
  by (simp add: songMatches_def fieldMatches_empty)

lemma mset_orderByIdDesc: "mset (orderByIdDesc xs) = mset xs"
  by (simp add: orderByIdDesc_def)

lemma idDescending_orderByIdDesc: "idDescending (orderByIdDesc xs)"
proof -
  have "sorted (map ID (sort_key ID xs))" by (rule sorted_sort_key)
  then have "sorted_wrt (\<lambda>a b. ID a \<le> ID b) (sort_key ID xs)"
    by (simp add: sorted_map)
  then show ?thesis
    by (simp add: idDescending_def orderByIdDesc_def sorted_wrt_rev)
qed

lemma selectSongs_ok:
  "0 \<le> limit \<Longrightarrow> 0 \<le> offset \<Longrightarrow>
   selectSongs f limit offset tbl =
     Inr (take (nat limit) (drop (nat offset) (orderByIdDesc (filter (songMatches f) tbl))))"
  by (simp add: selectSongs_def rowMatches_whereClauses)

lemma GetAll_ok:
  assumes "nextFault d = None" and "0 \<le> limit" and "0 \<le> offset"
  shows "fst (GetAll f limit offset d) =
     Inr (take (nat limit) (drop (nat offset) (orderByIdDesc (filter (songMatches f) (rows d)))))"
  using assms by (simp add: GetAll_def Let_def selectSongs_ok)

lemma ListSongs_fst:
  "fst (ListSongs f limit offset d) =
     (case fst (GetAll f limit offset d) of
        Inl err \<Rightarrow> Inl (ErrWrap ''failed to list songs'' err) | Inr songs \<Rightarrow> Inr songs)"
  by (simp add: ListSongs_def split: prod.splits sum.splits)

lemma GetAll_negative:
  assumes "limit < 0 \<or> offset < 0"
  shows "\<exists>e. fst (GetAll f limit offset d) = Inl e"
proof -
  from assms have "\<exists>e'. selectSongs f limit offset (rows d) = Inl e'"
    by (cases "offset < 0") (simp_all add: selectSongs_def)
  then obtain e' where "selectSongs f limit offset (rows d) = Inl e'" ..
  then show ?thesis
    by (auto simp: GetAll_def Let_def split: option.splits stage.splits)
qed

lemma ordered_sample: "orderByIdDesc (filter (songMatches noFilter) (rows sampleDb)) = [otherSong, sampleSong]"
  by code_simp

lemma Atoi_ten: "Atoi ''ten'' = (0, Some ErrSyntax)"
  by code_simp

lemma Atoi_huge: "Atoi ''99999999999999999999'' = (9223372036854775807, Some ErrRange)"
  by code_simp

lemma Atoi_empty: "Atoi [] = (0, Some ErrSyntax)"
  by (simp add: Atoi_def ParseInt_def)

lemma Atoi_range_bound:
  "snd (Atoi s) = Some ErrRange \<Longrightarrow> fst (Atoi s) = 2 ^ 63 - 1 \<or> fst (Atoi s) = - (2 ^ 63)"
  by (auto simp: Atoi_def ParseInt_def Let_def split: if_splits prod.splits option.splits numError.splits)

lemma Atoi_syntax: "snd (Atoi s) = Some ErrSyntax \<Longrightarrow> fst (Atoi s) = 0"
  by (auto simp: Atoi_def ParseInt_def Let_def split: if_splits prod.splits option.splits numError.splits)

lemma ListSongsEndpoint_fst:
  "fst (ListSongsEndpoint req d) =
     (case fst (ListSongs \<lparr>FilterGroupName = ReqGroupName req, FilterTitle = ReqTitle req\<rparr>
                 (Limit req) (Offset req) d) of
        Inl err \<Rightarrow> \<lparr>Songs = [], SongsErr = Error err\<rparr>
      | Inr songs \<Rightarrow> \<lparr>Songs = songs, SongsErr = []\<rparr>)"
  by (simp add: ListSongsEndpoint_def Let_def split: prod.splits sum.splits)

text \<open>
  What the listing returns when the query runs, for a limit and an offset that are not
  negative: the window of \<open>limit\<close> rows after the first \<open>offset\<close> of \<open>ord\<close>, the rows
  that match the filter, each once, in descending order of id. A filter value without
  \<^verbatim>\<open>%\<close>, \<^verbatim>\<open>_\<close> and backslash matches the columns that contain it, letter case aside;
  a value with one of them matches as the pattern \<^verbatim>\<open>%value%\<close>. Case and characters
  are those of \<open>toLower\<close> and \<open>like\<close>: ASCII letters, and one byte for \<^verbatim>\<open>_\<close>.
\<close>

lemma listing_filter_order_window:
  assumes "nextFault d = None" and "0 \<le> limit" and "0 \<le> offset"
  shows "\<exists>ord. mset ord = mset (filter (songMatches f) (rows d)) \<and> idDescending ord \<and>
           fst (GetAll f limit offset d) = Inr (take (nat limit) (drop (nat offset) ord)) \<and>
           fst (ListSongs f limit offset d) = Inr (take (nat limit) (drop (nat offset) ord)) \<and>
           (FilterGroupName f = [] \<and> FilterTitle f = [] \<longrightarrow> mset ord = mset (rows d)) \<and>
           (length ord \<le> nat offset \<longrightarrow> fst (ListSongs f limit offset d) = Inr [])"
proof -
  let ?ord = "orderByIdDesc (filter (songMatches f) (rows d))"
  have g: "fst (GetAll f limit offset d) = Inr (take (nat limit) (drop (nat offset) ?ord))"
    by (rule GetAll_ok [OF assms])
  have l: "fst (ListSongs f limit offset d) = Inr (take (nat limit) (drop (nat offset) ?ord))"
    by (simp add: ListSongs_fst g)
  have m: "mset ?ord = mset (filter (songMatches f) (rows d))"
    by (rule mset_orderByIdDesc)
  have a: "FilterGroupName f = [] \<and> FilterTitle f = [] \<longrightarrow> mset ?ord = mset (rows d)"
    by (simp add: mset_orderByIdDesc songMatches_no_filter)
  have e: "length ?ord \<le> nat offset \<longrightarrow> fst (ListSongs f limit offset d) = Inr []"
    by (simp add: l)
  show ?thesis
    using g l m a e idDescending_orderByIdDesc [of "filter (songMatches f) (rows d)"]
    by (intro exI [of _ ?ord]) blast
qed

text \<open>
  C7. The table of \<open>sampleDb\<close> holds a song of the group \<^verbatim>\<open>abc\<close>. The listing with the
  group name filter \<^verbatim>\<open>a_c\<close>, limit 10 and offset 0 returns that song, although
  \<^verbatim>\<open>a_c\<close> does not occur in \<^verbatim>\<open>abc\<close>, letter case aside: \<^verbatim>\<open>GetAll\<close> binds
  \<^verbatim>\<open>%a_c%\<close> to \<^verbatim>\<open>ILIKE\<close> without escaping the filter value, and \<^verbatim>\<open>_\<close> stands for
  any one character of the column.
\<close>

theorem ListSongs_wildcard_counterexample:
  "FilterGroupName wildFilter = ''a_c'' \<and> GroupName otherSong = ''abc'' \<and>
   \<not> containsFold ''a_c'' ''abc'' \<and>
   fst (ListSongs wildFilter 10 0 sampleDb) = Inr [otherSong]"
  by code_simp

subsection \<open>A limit of zero\<close>

lemma selectSongs_zero:
  "selectSongs f 0 offset tbl = (if offset < 0 then Inl (ErrNew ''pq: OFFSET must not be negative'') else Inr [])"
  by (simp add: selectSongs_def)

lemma GetAll_zero_limit:
  "(\<exists>e. fst (GetAll f 0 offset d) = Inl e) \<or> fst (GetAll f 0 offset d) = Inr []"
  by (auto simp: GetAll_def Let_def selectSongs_zero split: option.splits stage.splits)

lemma ListSongs_zero_limit_songs:
  "(\<exists>e. fst (ListSongs f 0 offset d) = Inl e) \<or> fst (ListSongs f 0 offset d) = Inr []"
  using GetAll_zero_limit [of f offset d] by (auto simp: ListSongs_fst)

lemma ListSongs_zero_limit_ok:
  "nextFault d = None \<Longrightarrow> 0 \<le> offset \<Longrightarrow> fst (ListSongs f 0 offset d) = Inr []"
  by (simp add: ListSongs_fst GetAll_ok)

lemma decodeListSongsRequest_eq:
  "decodeListSongsRequest vals =
     Inr \<lparr>ReqGroupName = vals ''group'', ReqTitle = vals ''title'',
          Limit = fst (Atoi (vals ''limit'')), Offset = fst (Atoi (vals ''offset''))\<rparr>"
  by (simp add: decodeListSongsRequest_def Let_def)

text \<open>
  C10, as the specification words it, fails for a limit that does not parse because it
  is out of range: \<^verbatim>\<open>Atoi\<close> reports an error on \<^verbatim>\<open>99999999999999999999\<close> and
  returns the largest \<^verbatim>\<open>int\<close>, which the decoder takes as the limit, and the listing
  returns the songs of the table.
\<close>

theorem ListSongs_huge_limit_counterexample:
  "snd (Atoi (hugeLimitQuery ''limit'')) = Some ErrRange \<and>
   decodeListSongsRequest hugeLimitQuery = Inr hugeLimitRequest \<and>
   Limit hugeLimitRequest = 9223372036854775807 \<and>
   fst (ListSongsEndpoint hugeLimitRequest sampleDb) = \<lparr>Songs = [otherSong, sampleSong], SongsErr = []\<rparr>"
proof -
  have q: "hugeLimitQuery ''limit'' = ''99999999999999999999''" "hugeLimitQuery ''offset'' = []"
    "hugeLimitQuery ''group'' = []" "hugeLimitQuery ''title'' = []"
    by (simp_all add: hugeLimitQuery_def)
  have d: "decodeListSongsRequest hugeLimitQuery = Inr hugeLimitRequest"
    by (simp add: decodeListSongsRequest_eq q Atoi_huge Atoi_empty hugeLimitRequest_def)
  have f: "\<lparr>FilterGroupName = ReqGroupName hugeLimitRequest, FilterTitle = ReqTitle hugeLimitRequest\<rparr> = noFilter"
    by (simp add: hugeLimitRequest_def noFilter_def)
  have g: "fst (GetAll noFilter 9223372036854775807 0 sampleDb) = Inr [otherSong, sampleSong]"
    by (simp add: GetAll_ok [OF nextFault_sampleDb] ordered_sample)
  have l: "Limit hugeLimitRequest = 9223372036854775807" "Offset hugeLimitRequest = 0"
    by (simp_all add: hugeLimitRequest_def)
  have e: "fst (ListSongsEndpoint hugeLimitRequest sampleDb) = \<lparr>Songs = [otherSong, sampleSong], SongsErr = []\<rparr>"
    by (simp add: ListSongsEndpoint_fst f l ListSongs_fst g)
  show ?thesis using d e l by (simp add: q Atoi_huge)
qed

text \<open>
  C10. With a limit of 0 \<^verbatim>\<open>ListSongs\<close> returns no song, for every filter and offset:
  it returns the empty list when the query runs (no failure, offset not negative), and an
  error otherwise. The request decoder reads a limit parameter that is missing, or that
  is not a decimal integer, as 0; the listing endpoint then answers with no songs.
\<close>

theorem ListSongs_zero_limit:
  assumes "vals ''limit'' = [] \<or> snd (Atoi (vals ''limit'')) = Some ErrSyntax"
  shows "\<exists>req. decodeListSongsRequest vals = Inr req \<and> Limit req = 0 \<and>
           Songs (fst (ListSongsEndpoint req d)) = [] \<and>
           (nextFault d = None \<and> 0 \<le> Offset req \<longrightarrow>
              fst (ListSongsEndpoint req d) = \<lparr>Songs = [], SongsErr = []\<rparr>) \<and>
           ((\<exists>e. fst (ListSongs f 0 offset d) = Inl e) \<or> fst (ListSongs f 0 offset d) = Inr []) \<and>
           (nextFault d = None \<and> 0 \<le> offset \<longrightarrow> fst (ListSongs f 0 offset d) = Inr [])"
proof -
  let ?req = "\<lparr>ReqGroupName = vals ''group'', ReqTitle = vals ''title'',
          Limit = fst (Atoi (vals ''limit'')), Offset = fst (Atoi (vals ''offset''))\<rparr>"
  let ?f = "\<lparr>FilterGroupName = vals ''group'', FilterTitle = vals ''title''\<rparr>"
  have z: "fst (Atoi (vals ''limit'')) = 0"
    using assms Atoi_empty Atoi_syntax by auto
  have s: "Songs (fst (ListSongsEndpoint ?req d)) = []"
    using ListSongs_zero_limit_songs [of ?f "fst (Atoi (vals ''offset''))" d]
    by (auto simp: ListSongsEndpoint_fst z)
  have k: "nextFault d = None \<and> 0 \<le> Offset ?req \<longrightarrow>
              fst (ListSongsEndpoint ?req d) = \<lparr>Songs = [], SongsErr = []\<rparr>"
    by (simp add: ListSongsEndpoint_fst z ListSongs_zero_limit_ok)
  show ?thesis
    using z s k ListSongs_zero_limit_songs [of f offset d] ListSongs_zero_limit_ok [of d offset f]
    by (intro exI [of _ ?req]) (simp add: decodeListSongsRequest_eq)
qed

theorem ListSongs_zero_limit_witness:
  "snd (Atoi (sampleQuery ''limit'')) = Some ErrSyntax \<and> nextFault sampleDb = None \<and>
   decodeListSongsRequest sampleQuery = Inr \<lparr>ReqGroupName = [], ReqTitle = [], Limit = 0, Offset = 0\<rparr> \<and>
   fst (ListSongsEndpoint \<lparr>ReqGroupName = [], ReqTitle = [], Limit = 0, Offset = 0\<rparr> sampleDb) =
     \<lparr>Songs = [], SongsErr = []\<rparr> \<and>
   fst (ListSongs floydFilter 0 0 sampleDb) = Inr []"
proof -
  have q: "sampleQuery ''limit'' = ''ten''" "sampleQuery ''offset'' = []"
    "sampleQuery ''group'' = []" "sampleQuery ''title'' = []"
    by (simp_all add: sampleQuery_def)
  have h: "sampleQuery ''limit'' = [] \<or> snd (Atoi (sampleQuery ''limit'')) = Some ErrSyntax"
    by (simp add: q Atoi_ten)
  have d: "decodeListSongsRequest sampleQuery =
             Inr \<lparr>ReqGroupName = [], ReqTitle = [], Limit = 0, Offset = 0\<rparr>"
    by (simp add: decodeListSongsRequest_eq q Atoi_ten Atoi_empty)
  show ?thesis
    using ListSongs_zero_limit [where vals = sampleQuery and d = sampleDb and f = floydFilter and offset = 0]
      h d nextFault_sampleDb
    by (simp add: q Atoi_ten)
qed

end
